theory Spec2Isabelle
  imports Complex_Main "HOL-Library.Char_ord" "HOL-Library.List_Lexorder"
begin

section \<open>Go library functions used by the handlers\<close>

text \<open>
  \<^verbatim>\<open>strconv.Atoi\<close> on a 64-bit platform: an optional sign, then one or more decimal
  digits, and the value must fit \<^verbatim>\<open>int\<close>; anything else is an error (\<open>None\<close>).
  A byte is a digit when, after \<^verbatim>\<open>ch -= '0'\<close>, it is at most 9.
  \<^verbatim>\<open>fmt.Sprintf("%d", n)\<close> is \<open>itoa\<close>.
\<close>

definition digit_of :: "char \<Rightarrow> nat option" where
  "digit_of c =
     (let k = (of_char c :: nat) in if 48 \<le> k \<and> k \<le> 57 then Some (k - 48) else None)"

fun parse_digits :: "string \<Rightarrow> nat \<Rightarrow> nat option" where
  "parse_digits [] n = Some n"
| "parse_digits (c # cs) n =
     (case digit_of c of None \<Rightarrow> None | Some d \<Rightarrow> parse_digits cs (n * 10 + d))"

definition Atoi :: "string \<Rightarrow> int option" where
  "Atoi s =
     (case s of
        [] \<Rightarrow> None
      | c # cs \<Rightarrow>
          (let ds = (if c = CHR ''-'' \<or> c = CHR ''+'' then cs else s) in
           if ds = [] then None
           else (case parse_digits ds 0 of
                   None \<Rightarrow> None
                 | Some n \<Rightarrow>
                     (let v = (if c = CHR ''-'' then - int n else int n) in
                      if v < - (2 ^ 63) \<or> 2 ^ 63 - 1 < v then None else Some v))))"

definition digit_char :: "nat \<Rightarrow> char" where
  "digit_char d = ''0123456789'' ! d"

function nat_digits :: "nat \<Rightarrow> string" where
  "nat_digits n =
     (if n < 10 then [digit_char n] else nat_digits (n div 10) @ [digit_char (n mod 10)])"
  by pat_completeness auto
termination
  by (relation "measure id") auto

declare nat_digits.simps [simp del]

definition itoa :: "int \<Rightarrow> string" where
  "itoa i = (if i < 0 then CHR ''-'' # nat_digits (nat (- i)) else nat_digits (nat i))"

section \<open>The store: tables of \<^verbatim>\<open>createTables\<close>\<close>

text \<open>
  One record per table row, with the columns the handlers read or write. Every
  \<^verbatim>\<open>id\<close> is \<^verbatim>\<open>INTEGER PRIMARY KEY AUTOINCREMENT\<close>; SQLite's 64-bit \<^verbatim>\<open>INTEGER\<close>
  is modelled by \<open>int\<close>, and a \<^verbatim>\<open>DATETIME\<close> by the number of seconds since the epoch.
  The \<^verbatim>\<open>CHECK\<close> constraint on \<^verbatim>\<open>point_submissions.status\<close> allows exactly the three
  values of \<open>status\<close>. The columns \<^verbatim>\<open>wards.created_at\<close>, \<^verbatim>\<open>users.password\<close>,
  \<^verbatim>\<open>users.created_at\<close>, \<^verbatim>\<open>achievements.description\<close> and \<^verbatim>\<open>achievements.earned_at\<close>
  are read by no handler modelled here and are left out.
\<close>

datatype status = Pending | Approved | Rejected

record Ward =
  ward_id :: int
  ward_name :: string
  ward_points :: int
  ward_pending_points :: int

record User =
  user_id :: int
  user_email :: string
  user_role :: string
  user_ward_id :: "int option"

record PointSubmission =
  sub_id :: int
  sub_ward_id :: int
  sub_submitter_name :: string
  sub_points :: int
  sub_note :: string
  sub_status :: status
  sub_approved_by :: "int option"
  sub_approved_at :: "int option"
  sub_created_at :: int

record Achievement =
  ach_id :: int
  ach_ward_id :: int
  ach_type :: string
  ach_title :: string
  ach_icon :: string

record ActivityLog =
  log_id :: int
  log_ward_id :: int
  log_user_id :: "int option"
  log_action :: string
  log_details :: string
  log_points :: int
  log_created_at :: int

record DB =
  wards :: "Ward list"
  users :: "User list"
  point_submissions :: "PointSubmission list"
  achievements :: "Achievement list"
  activity_logs :: "ActivityLog list"

text \<open>
  \<^verbatim>\<open>AUTOINCREMENT\<close>: one more than the largest id used so far. No statement of the
  program deletes a row, so that is one more than the largest id in the table.
\<close>

definition next_id :: "int list \<Rightarrow> int" where
  "next_id ids = fold max ids 0 + 1"

text \<open>
  The connection is opened with \<^verbatim>\<open>_foreign_keys=on\<close>, so an insert or update whose
  \<^verbatim>\<open>ward_id\<close>, \<^verbatim>\<open>user_id\<close> or \<^verbatim>\<open>approved_by\<close> names no row of the referenced table
  fails, and nothing is written.
\<close>

definition ward_exists :: "DB \<Rightarrow> int \<Rightarrow> bool" where
  "ward_exists d w = (w \<in> set (map ward_id (wards d)))"

definition user_exists :: "DB \<Rightarrow> int \<Rightarrow> bool" where
  "user_exists d u = (u \<in> set (map user_id (users d)))"

text \<open>\<^verbatim>\<open>INSERT INTO point_submissions\<close>: \<open>None\<close> is the foreign-key error.\<close>

definition insert_point_submission ::
  "int \<Rightarrow> int \<Rightarrow> string \<Rightarrow> int \<Rightarrow> string \<Rightarrow> status \<Rightarrow> int option \<Rightarrow> DB \<Rightarrow> (int \<times> DB) option" where
  "insert_point_submission now w name pts nt st appr d =
     (if \<not> ward_exists d w then None
      else
        (let i = next_id (map sub_id (point_submissions d)) in
         Some (i, d\<lparr>point_submissions := point_submissions d @
           [\<lparr>sub_id = i, sub_ward_id = w, sub_submitter_name = name, sub_points = pts,
             sub_note = nt, sub_status = st, sub_approved_by = None, sub_approved_at = appr,
             sub_created_at = now\<rparr>]\<rparr>)))"

text \<open>
  \<^verbatim>\<open>SELECT COALESCE(SUM(points), 0) FROM point_submissions WHERE ward_id = ? AND status = ?\<close>
\<close>

definition sum_points :: "status \<Rightarrow> int \<Rightarrow> PointSubmission list \<Rightarrow> int" where
  "sum_points st w subs =
     sum_list (map sub_points (filter (\<lambda>x. sub_ward_id x = w \<and> sub_status x = st) subs))"

text \<open>\<^verbatim>\<open>UPDATE wards SET pending_points = (SELECT ... 'pending') WHERE id = ?\<close>\<close>

definition update_pending_points :: "int \<Rightarrow> DB \<Rightarrow> DB" where
  "update_pending_points w d =
     d\<lparr>wards := map (\<lambda>x. if ward_id x = w
                           then x\<lparr>ward_pending_points := sum_points Pending w (point_submissions d)\<rparr>
                           else x) (wards d)\<rparr>"

text \<open>
  \<^verbatim>\<open>SELECT ... FROM point_submissions WHERE id = ? AND status = 'pending'\<close>, read with
  \<^verbatim>\<open>QueryRow\<close>: the first matching row, or \<^verbatim>\<open>sql.ErrNoRows\<close> (\<open>None\<close>).
\<close>

definition select_pending :: "int \<Rightarrow> DB \<Rightarrow> PointSubmission option" where
  "select_pending i d = find (\<lambda>x. sub_id x = i \<and> sub_status x = Pending) (point_submissions d)"

text \<open>
  \<^verbatim>\<open>UPDATE point_submissions SET status = ?, approved_by = ?, approved_at = CURRENT_TIMESTAMP
  WHERE id = ?\<close>: \<open>None\<close> is the foreign-key error on \<^verbatim>\<open>approved_by\<close>.
\<close>

definition update_submission_status :: "status \<Rightarrow> int \<Rightarrow> int \<Rightarrow> int \<Rightarrow> DB \<Rightarrow> DB option" where
  "update_submission_status st uid now i d =
     (if list_ex (\<lambda>x. sub_id x = i) (point_submissions d) \<and> \<not> user_exists d uid then None
      else Some (d\<lparr>point_submissions :=
             map (\<lambda>x. if sub_id x = i
                       then x\<lparr>sub_status := st, sub_approved_by := Some uid,
                               sub_approved_at := Some now\<rparr>
                       else x) (point_submissions d)\<rparr>))"

text \<open>
  \<^verbatim>\<open>UPDATE wards SET points = points + ?, pending_points = pending_points - ? WHERE id = ?\<close>
\<close>

definition update_ward_points :: "int \<Rightarrow> int \<Rightarrow> int \<Rightarrow> DB \<Rightarrow> DB" where
  "update_ward_points dp dq w d =
     d\<lparr>wards := map (\<lambda>x. if ward_id x = w
                           then x\<lparr>ward_points := ward_points x + dp,
                                   ward_pending_points := ward_pending_points x - dq\<rparr>
                           else x) (wards d)\<rparr>"

text \<open>\<^verbatim>\<open>canApproveForWard\<close>: the role check against the \<^verbatim>\<open>users\<close> table.\<close>

definition canApproveForWard :: "DB \<Rightarrow> int \<Rightarrow> int \<Rightarrow> bool" where
  "canApproveForWard d userID wardID =
     (case find (\<lambda>u. user_id u = userID) (users d) of
        None \<Rightarrow> False
      | Some u \<Rightarrow>
          if user_role u = ''admin'' then True
          else if user_role u = ''ward_approver'' \<and> user_ward_id u = Some wardID then True
          else False)"

text \<open>
  \<^verbatim>\<open>logActivity\<close>: an insert into \<^verbatim>\<open>activity_logs\<close>; on a foreign-key error the
  function logs and returns, and nothing is written.
\<close>

definition logActivity :: "int \<Rightarrow> int \<Rightarrow> int option \<Rightarrow> string \<Rightarrow> string \<Rightarrow> int \<Rightarrow> DB \<Rightarrow> DB" where
  "logActivity now wardID userID action details pts d =
     (if \<not> ward_exists d wardID \<or> (case userID of None \<Rightarrow> False | Some u \<Rightarrow> \<not> user_exists d u)
      then d
      else d\<lparr>activity_logs := activity_logs d @
             [\<lparr>log_id = next_id (map log_id (activity_logs d)), log_ward_id = wardID,
               log_user_id = userID, log_action = action, log_details = details,
               log_points = pts, log_created_at = now\<rparr>]\<rparr>)"

text \<open>
  \<^verbatim>\<open>INSERT OR IGNORE INTO achievements (ward_id, type, title, icon)\<close>. The result is the
  statement's \<^verbatim>\<open>err == nil\<close> and the new store. A row that collides with
  \<^verbatim>\<open>UNIQUE(ward_id, type)\<close> is skipped without an error; \<^verbatim>\<open>OR IGNORE\<close> does not cover
  a foreign-key violation, which is an error.
\<close>

definition insert_or_ignore_achievement ::
  "int \<Rightarrow> string \<Rightarrow> string \<Rightarrow> string \<Rightarrow> DB \<Rightarrow> bool \<times> DB" where
  "insert_or_ignore_achievement w ty title icon d =
     (if list_ex (\<lambda>a. ach_ward_id a = w \<and> ach_type a = ty) (achievements d) then (True, d)
      else if \<not> ward_exists d w then (False, d)
      else (True, d\<lparr>achievements := achievements d @
              [\<lparr>ach_id = next_id (map ach_id (achievements d)), ach_ward_id = w,
                ach_type = ty, ach_title = title, ach_icon = icon\<rparr>]\<rparr>))"

section \<open>The broadcast hub\<close>

text \<open>
  A broadcast event is the JSON object \<^verbatim>\<open>{"type": ..., "data": ...}\<close> of
  \<^verbatim>\<open>broadcastUpdate\<close>. The data of a \<^verbatim>\<open>leaderboard-update\<close> is the list of leaderboard
  entries (its \<^verbatim>\<open>stats\<close> member is not modelled); the data of an \<^verbatim>\<open>achievement\<close> is
  the ward's name, the achievement's title and the milestone sentence.
\<close>

record LeaderboardEntry =
  Rank :: int
  WardID :: int
  WardName :: string
  Points :: int
  PendingPoints :: int
  TotalPoints :: int
  Progress :: real
  Achievements :: "string list"
  Streak :: int

datatype payload =
  LeaderboardData "LeaderboardEntry list"
| AchievementData string string string

datatype message = Message (msg_type: string) (msg_data: payload)

text \<open>
  A \<^verbatim>\<open>*Client\<close> is its address, a natural number. The hub is the only closer of a
  client's \<^verbatim>\<open>send\<close> channel, and it closes the channel exactly when it deletes the client
  from \<^verbatim>\<open>h.clients\<close>; so \<open>clients\<close> holds, for each registered client, the messages
  buffered in its (open) \<^verbatim>\<open>send\<close> channel, and \<open>closed\<close> lists the clients whose channel
  the hub has closed. \<^verbatim>\<open>handleWebSocket\<close> makes every \<^verbatim>\<open>send\<close> channel with a buffer of
  256 messages. \<open>broadcast\<close> is the sequence of messages received from the channel
  \<^verbatim>\<open>h.broadcast\<close> so far.
\<close>

record Hub =
  clients :: "(nat \<times> message list) list"
  closed :: "nat list"
  broadcast :: "message list"

definition send_capacity :: nat where
  "send_capacity = 256"

text \<open>The three cases of the \<^verbatim>\<open>select\<close> of \<^verbatim>\<open>Hub.run\<close>, one function each.\<close>

definition hub_register :: "nat \<Rightarrow> Hub \<Rightarrow> Hub" where
  "hub_register c h =
     (if c \<in> set (map fst (clients h)) then h else h\<lparr>clients := clients h @ [(c, [])]\<rparr>)"

definition hub_unregister :: "nat \<Rightarrow> Hub \<Rightarrow> Hub" where
  "hub_unregister c h =
     (if c \<in> set (map fst (clients h))
      then h\<lparr>clients := filter (\<lambda>p. fst p \<noteq> c) (clients h), closed := closed h @ [c]\<rparr>
      else h)"

text \<open>
  The loop \<^verbatim>\<open>for client := range h.clients\<close> of the broadcast case, over the clients in
  the order the list has them: a non-blocking send that succeeds when the buffer has
  room, and otherwise \<^verbatim>\<open>close(client.send)\<close> and \<^verbatim>\<open>delete(h.clients, client)\<close>.
\<close>

fun broadcast_loop :: "message \<Rightarrow> (nat \<times> message list) list \<Rightarrow> Hub \<Rightarrow> Hub" where
  "broadcast_loop m [] h = h"
| "broadcast_loop m ((c, q) # cs) h =
     broadcast_loop m cs
       (if length q < send_capacity
        then h\<lparr>clients := map (\<lambda>p. if fst p = c then (c, q @ [m]) else p) (clients h)\<rparr>
        else h\<lparr>clients := filter (\<lambda>p. fst p \<noteq> c) (clients h), closed := closed h @ [c]\<rparr>)"

definition hub_broadcast :: "message \<Rightarrow> Hub \<Rightarrow> Hub" where
  "hub_broadcast m h = broadcast_loop m (clients h) (h\<lparr>broadcast := broadcast h @ [m]\<rparr>)"

section \<open>The server\<close>

record Server =
  db :: DB
  hub :: Hub

text \<open>
  \<^verbatim>\<open>broadcastUpdate\<close> sends the event on \<^verbatim>\<open>h.broadcast\<close>; the channel is unbuffered, so
  the hub has received it when the send returns, and the model lets the hub deliver it
  at once.
\<close>

definition broadcastUpdate :: "string \<Rightarrow> payload \<Rightarrow> Server \<Rightarrow> Server" where
  "broadcastUpdate updateType dat s = s\<lparr>hub := hub_broadcast (Message updateType dat) (hub s)\<rparr>"

subsection \<open>The leaderboard\<close>

text \<open>
  SQLite's \<^verbatim>\<open>ROUND(x, 1)\<close> rounds half away from zero. \<^verbatim>\<open>FLOAT\<close> values are
  modelled by real numbers and their arithmetic by exact arithmetic.
\<close>

definition sql_round1 :: "real \<Rightarrow> real" where
  "sql_round1 x =
     (if x < 0 then - (of_int \<lfloor>- x * 10 + 1 / 2\<rfloor> / 10) else of_int \<lfloor>x * 10 + 1 / 2\<rfloor> / 10)"

text \<open>\<^verbatim>\<open>ROUND(CAST(w.points AS FLOAT) / 1300 * 100, 1)\<close>\<close>

definition progress :: "int \<Rightarrow> real" where
  "progress p = sql_round1 (of_int p / 1300 * 100)"

text \<open>
  The \<^verbatim>\<open>ORDER BY\<close> clause chosen by the \<^verbatim>\<open>switch\<close> on \<^verbatim>\<open>sortBy\<close>. SQLite leaves the
  order of rows with equal keys open; the model keeps them in table order.
\<close>

definition order_by :: "string \<Rightarrow> Ward list \<Rightarrow> Ward list" where
  "order_by sortBy ws =
     (if sortBy = ''verified-asc'' then sort_key ward_points ws
      else if sortBy = ''total-desc''
        then sort_key (\<lambda>w. - (ward_points w + ward_pending_points w)) ws
      else if sortBy = ''total-asc''
        then sort_key (\<lambda>w. ward_points w + ward_pending_points w) ws
      else if sortBy = ''ward-asc'' then sort_key ward_name ws
      else if sortBy = ''ward-desc'' then rev (sort_key ward_name ws)
      else sort_key (\<lambda>w. - ward_points w) ws)"

text \<open>\<^verbatim>\<open>SELECT icon || ' ' || title FROM achievements WHERE ward_id = ?\<close>\<close>

definition getWardAchievements :: "DB \<Rightarrow> int \<Rightarrow> string list" where
  "getWardAchievements d wardID =
     map (\<lambda>a. ach_icon a @ '' '' @ ach_title a)
       (filter (\<lambda>a. ach_ward_id a = wardID) (achievements d))"

text \<open>
  \<^verbatim>\<open>calculateStreak\<close>: the number of distinct days with an activity-log row of the ward
  in the last seven days.
\<close>

definition calculateStreak :: "int \<Rightarrow> DB \<Rightarrow> int \<Rightarrow> int" where
  "calculateStreak now d wardID =
     int (length (remdups (map (\<lambda>l. log_created_at l div 86400)
       (filter (\<lambda>l. log_ward_id l = wardID \<and> now - 7 * 86400 \<le> log_created_at l)
          (activity_logs d)))))"

text \<open>The \<^verbatim>\<open>for rows.Next()\<close> loop of \<^verbatim>\<open>getLeaderboardEntries\<close>, with its rank counter.\<close>

fun scan_rows :: "int \<Rightarrow> DB \<Rightarrow> int \<Rightarrow> Ward list \<Rightarrow> LeaderboardEntry list" where
  "scan_rows now d rank [] = []"
| "scan_rows now d rank (w # ws) =
     \<lparr>Rank = rank, WardID = ward_id w, WardName = ward_name w, Points = ward_points w,
      PendingPoints = ward_pending_points w,
      TotalPoints = ward_points w + ward_pending_points w,
      Progress = progress (ward_points w),
      Achievements = getWardAchievements d (ward_id w),
      Streak = calculateStreak now d (ward_id w)\<rparr> # scan_rows now d (rank + 1) ws"

definition getLeaderboardEntries :: "int \<Rightarrow> DB \<Rightarrow> string \<Rightarrow> LeaderboardEntry list" where
  "getLeaderboardEntries now d sortBy = scan_rows now d 1 (order_by sortBy (wards d))"

definition broadcastLeaderboardUpdate :: "int \<Rightarrow> Server \<Rightarrow> Server" where
  "broadcastLeaderboardUpdate now s =
     broadcastUpdate ''leaderboard-update''
       (LeaderboardData (getLeaderboardEntries now (db s) ''verified-desc'')) s"

subsection \<open>Achievements\<close>

definition broadcastAchievement :: "int \<Rightarrow> string \<Rightarrow> Server \<Rightarrow> Server" where
  "broadcastAchievement wardID achievement s =
     (let wardName = (case find (\<lambda>w. ward_id w = wardID) (wards (db s)) of
                        None \<Rightarrow> [] | Some w \<Rightarrow> ward_name w)
      in broadcastUpdate ''achievement''
           (AchievementData wardName achievement (wardName @ '' earned: '' @ achievement)) s)"

text \<open>
  The table of \<^verbatim>\<open>checkAndAwardAchievements\<close>: condition, type, title, icon (the icon's
  UTF-8 bytes).
\<close>

definition achievement_table :: "int \<Rightarrow> (bool \<times> string \<times> string \<times> string) list" where
  "achievement_table points =
     [(100 \<le> points, ''first_100'', ''First 100 Points!'', [CHR 0xF0, CHR 0x9F, CHR 0x92, CHR 0xAF]),
      (500 \<le> points, ''first_500'', ''First to 500!'', [CHR 0xE2, CHR 0x9A, CHR 0xA1]),
      (1000 \<le> points, ''first_1000'', ''Thousand Club!'', [CHR 0xF0, CHR 0x9F, CHR 0x8E, CHR 0xAF]),
      (1300 \<le> points, ''goal_reached'', ''Goal Achieved!'', [CHR 0xF0, CHR 0x9F, CHR 0x8F, CHR 0x86])]"

text \<open>
  The loop over the table: for a condition that holds, the insert, and then the broadcast
  when the insert returned no error.
\<close>

fun award_loop :: "int \<Rightarrow> (bool \<times> string \<times> string \<times> string) list \<Rightarrow> Server \<Rightarrow> Server" where
  "award_loop wardID [] s = s"
| "award_loop wardID ((condition, aType, title, icon) # rest) s =
     award_loop wardID rest
       (if condition
        then (case insert_or_ignore_achievement wardID aType title icon (db s) of
                (ok, d') \<Rightarrow>
                  if ok then broadcastAchievement wardID title (s\<lparr>db := d'\<rparr>)
                  else s\<lparr>db := d'\<rparr>)
        else s)"

definition checkAndAwardAchievements :: "int \<Rightarrow> Server \<Rightarrow> Server" where
  "checkAndAwardAchievements wardID s =
     (let points = (case find (\<lambda>w. ward_id w = wardID) (wards (db s)) of
                      None \<Rightarrow> 0 | Some w \<Rightarrow> ward_points w)
      in award_loop wardID (achievement_table points) s)"

subsection \<open>Requests and responses\<close>

text \<open>
  A request carries its cookies, its route variables (\<^verbatim>\<open>mux.Vars\<close>) and, for the submit
  handler, the result of decoding the JSON body (\<open>None\<close> when decoding fails; a member the
  body leaves out is the zero value). A response is \<^verbatim>\<open>http.Error(w, message, code)\<close> or
  the JSON success object with its optional \<^verbatim>\<open>id\<close> and its message.
\<close>

record SubmitBody =
  req_ward_id :: int
  req_submitter_name :: string
  req_points :: int
  req_note :: string

record Request =
  cookies :: "(string \<times> string) list"
  vars :: "(string \<times> string) list"
  body :: "SubmitBody option"

datatype response = HttpError string nat | JsonSuccess "int option" string

definition StatusBadRequest :: nat where "StatusBadRequest = 400"
definition StatusUnauthorized :: nat where "StatusUnauthorized = 401"
definition StatusForbidden :: nat where "StatusForbidden = 403"
definition StatusNotFound :: nat where "StatusNotFound = 404"
definition StatusInternalServerError :: nat where "StatusInternalServerError = 500"

definition getUserIDFromSession :: "Request \<Rightarrow> int" where
  "getUserIDFromSession r =
     (case map_of (cookies r) ''session'' of
        None \<Rightarrow> 0
      | Some v \<Rightarrow> (case Atoi v of None \<Rightarrow> 0 | Some userID \<Rightarrow> userID))"

text \<open>The cookie \<^verbatim>\<open>handleLogin\<close> sets for the user it has authenticated.\<close>

definition session_cookie :: "int \<Rightarrow> string \<times> string" where
  "session_cookie userID = (''session'', itoa userID)"

definition route_var :: "Request \<Rightarrow> string \<Rightarrow> string" where
  "route_var r k = (case map_of (vars r) k of None \<Rightarrow> [] | Some v \<Rightarrow> v)"

subsection \<open>The handlers\<close>

text \<open>
  Each handler takes the current time (\<^verbatim>\<open>CURRENT_TIMESTAMP\<close>), the request and the
  server's state, and returns the response and the new state. A handler runs from its
  first statement to its last before the next one starts, and a statement fails only by
  a constraint of the schema.
\<close>

definition handleSubmitPoints :: "int \<Rightarrow> Request \<Rightarrow> Server \<Rightarrow> response \<times> Server" where
  "handleSubmitPoints now r s =
     (case body r of
        None \<Rightarrow> (HttpError ''Invalid request'' StatusBadRequest, s)
      | Some b \<Rightarrow>
          if req_ward_id b = 0 \<or> req_submitter_name b = [] \<or> req_points b \<le> 0
          then (HttpError ''Missing required fields'' StatusBadRequest, s)
          else
            (case insert_point_submission now (req_ward_id b) (req_submitter_name b)
                    (req_points b) (req_note b) Pending None (db s) of
               None \<Rightarrow> (HttpError ''Failed to submit points'' StatusInternalServerError, s)
             | Some (submissionID, d1) \<Rightarrow>
                 (let d2 = update_pending_points (req_ward_id b) d1;
                      d3 = logActivity now (req_ward_id b) None ''points_submitted''
                             (req_submitter_name b @ '' submitted '' @ itoa (req_points b)
                                @ '' points'')
                             (req_points b) d2;
                      s4 = broadcastLeaderboardUpdate now (s\<lparr>db := d3\<rparr>)
                  in (JsonSuccess (Some submissionID)
                        ''Points submitted successfully! Waiting for approval.'', s4))))"

definition handleApprovePoints :: "int \<Rightarrow> Request \<Rightarrow> Server \<Rightarrow> response \<times> Server" where
  "handleApprovePoints now r s =
     (let userID = getUserIDFromSession r in
      if userID = 0 then (HttpError ''Unauthorized'' StatusUnauthorized, s)
      else
        (case Atoi (route_var r ''id'') of
           None \<Rightarrow> (HttpError ''Invalid submission ID'' StatusBadRequest, s)
         | Some submissionID \<Rightarrow>
             (case select_pending submissionID (db s) of
                None \<Rightarrow>
                  (HttpError ''Submission not found or already processed'' StatusNotFound, s)
              | Some sub \<Rightarrow>
                  if \<not> canApproveForWard (db s) userID (sub_ward_id sub)
                  then (HttpError ''Not authorized to approve for this ward'' StatusForbidden, s)
                  else
                    (case update_submission_status Approved userID now submissionID (db s) of
                       None \<Rightarrow>
                         (HttpError ''Failed to approve submission'' StatusInternalServerError, s)
                     | Some d1 \<Rightarrow>
                         (let d2 = update_ward_points (sub_points sub) (sub_points sub)
                                     (sub_ward_id sub) d1;
                              s3 = checkAndAwardAchievements (sub_ward_id sub) (s\<lparr>db := d2\<rparr>);
                              d4 = logActivity now (sub_ward_id sub) (Some userID)
                                     ''points_approved''
                                     (''Approved '' @ itoa (sub_points sub) @ '' points from ''
                                        @ sub_submitter_name sub)
                                     (sub_points sub) (db s3);
                              s5 = broadcastLeaderboardUpdate now (s3\<lparr>db := d4\<rparr>)
                          in (JsonSuccess None ''Points approved successfully!'', s5))))))"






subsection \<open>The first start: \<^verbatim>\<open>initDB\<close> and \<^verbatim>\<open>NewServer\<close>\<close>

text \<open>
  \<^verbatim>\<open>seedData\<close> on the tables \<^verbatim>\<open>createTables\<close> has just created. It does nothing when
  the \<^verbatim>\<open>wards\<close> table has a row. Its inserts into \<^verbatim>\<open>wards\<close> cannot fail then (the seven
  names differ); the administrator is inserted unless the e-mail address is taken.
\<close>

definition insert_ward :: "string \<Rightarrow> DB \<Rightarrow> DB" where
  "insert_ward name d =
     d\<lparr>wards := wards d @
        [\<lparr>ward_id = next_id (map ward_id (wards d)), ward_name = name, ward_points = 0,
          ward_pending_points = 0\<rparr>]\<rparr>"

definition insert_user :: "string \<Rightarrow> string \<Rightarrow> DB \<Rightarrow> DB" where
  "insert_user email role d =
     (if email \<in> set (map user_email (users d)) then d
      else d\<lparr>users := users d @
             [\<lparr>user_id = next_id (map user_id (users d)), user_email = email,
               user_role = role, user_ward_id = None\<rparr>]\<rparr>)"

definition seed_wards :: "string list" where
  "seed_wards =
     [''Fountain Green 1st Ward'', ''Fountain Green 2nd Ward'', ''Fountain Green 3rd Ward'',
      ''Moroni 1st Ward'', ''Moroni 2nd Ward'', ''Moroni 3rd Ward'', ''Sanpitch Ward'']"

definition sampleSubmissions :: "(int \<times> int \<times> status) list" where
  "sampleSubmissions =
     [(4, 847, Approved), (2, 765, Approved), (7, 692, Approved), (6, 543, Approved),
      (1, 489, Approved), (5, 412, Approved), (3, 387, Approved),
      (4, 50, Pending), (2, 55, Pending), (6, 35, Pending), (1, 25, Pending),
      (3, 55, Pending)]"

definition seed_submission :: "int \<Rightarrow> int \<times> int \<times> status \<Rightarrow> DB \<Rightarrow> DB" where
  "seed_submission now sub d =
     (case sub of (wardID, pts, st) \<Rightarrow>
        (case insert_point_submission now wardID ''Demo User'' pts ''Initial seed data'' st
                (if st = Approved then Some now else None) d of
           None \<Rightarrow> d
         | Some (i, d') \<Rightarrow> d'))"

text \<open>
  \<^verbatim>\<open>UPDATE wards SET points = (SELECT ... 'approved'), pending_points = (SELECT ... 'pending')\<close>,
  on every ward.
\<close>

definition recompute_ward_points :: "DB \<Rightarrow> DB" where
  "recompute_ward_points d =
     d\<lparr>wards := map (\<lambda>x. x\<lparr>ward_points := sum_points Approved (ward_id x) (point_submissions d),
                             ward_pending_points :=
                               sum_points Pending (ward_id x) (point_submissions d)\<rparr>) (wards d)\<rparr>"

definition seed_achievements :: "(int \<times> string \<times> string \<times> string) list" where
  "seed_achievements =
     [(4, ''first_500'', ''First to 500!'', [CHR 0xE2, CHR 0x9A, CHR 0xA1]),
      (4, ''week_champion'', ''Week Champion'', [CHR 0xF0, CHR 0x9F, CHR 0x8F, CHR 0x86]),
      (4, ''streak_3'', ''3 Day Streak!'', [CHR 0xF0, CHR 0x9F, CHR 0x94, CHR 0xA5]),
      (2, ''rising_star'', ''Rising Star'', [CHR 0xE2, CHR 0x9C, CHR 0xA8]),
      (2, ''team_player'', ''Team Player'', [CHR 0xF0, CHR 0x9F, CHR 0xA4, CHR 0x9D]),
      (7, ''consistent'', ''Consistent'', [CHR 0xF0, CHR 0x9F, CHR 0x93, CHR 0x8A]),
      (6, ''getting_started'', ''Getting Started'', [CHR 0xF0, CHR 0x9F, CHR 0x8C, CHR 0x9F]),
      (3, ''momentum'', ''Building Momentum!'', [CHR 0xF0, CHR 0x9F, CHR 0x9A, CHR 0x80])]"

definition seed_achievement :: "int \<times> string \<times> string \<times> string \<Rightarrow> DB \<Rightarrow> DB" where
  "seed_achievement a d =
     (case a of (wardID, aType, title, icon) \<Rightarrow>
        snd (insert_or_ignore_achievement wardID aType title icon d))"

definition seedData :: "int \<Rightarrow> DB \<Rightarrow> DB" where
  "seedData now d =
     (if wards d \<noteq> [] then d
      else
        (let d1 = fold insert_ward seed_wards d;
             d2 = insert_user ''admin@templepoints.org'' ''admin'' d1;
             d3 = fold (seed_submission now) sampleSubmissions d2;
             d4 = recompute_ward_points d3
         in fold seed_achievement seed_achievements d4))"

definition initDB :: "int \<Rightarrow> DB" where
  "initDB now =
     seedData now
       \<lparr>wards = [], users = [], point_submissions = [], achievements = [], activity_logs = []\<rparr>"

definition NewServer :: "int \<Rightarrow> Server" where
  "NewServer now = \<lparr>db = initDB now, hub = \<lparr>clients = [], closed = [], broadcast = []\<rparr>\<rparr>"

section \<open>Properties and sample inputs\<close>

text \<open>
  The consistency of the cached totals: for every ward, \<^verbatim>\<open>points\<close> is the sum over
  the ward's approved submissions and \<^verbatim>\<open>pending_points\<close> the sum over its pending ones.
\<close>

definition totals_consistent :: "DB \<Rightarrow> bool" where
  "totals_consistent d =
     list_all (\<lambda>w. ward_points w = sum_points Approved (ward_id w) (point_submissions d)
                  \<and> ward_pending_points w = sum_points Pending (ward_id w) (point_submissions d))
       (wards d)"

text \<open>
  The error taxonomy of the specification, read off the response: a \<open>ValidationError\<close> is
  the status 400, a \<open>StoreError\<close> the status 500.
\<close>

fun is_ValidationError :: "response \<Rightarrow> bool" where
  "is_ValidationError (HttpError msg code) = (code = StatusBadRequest)"
| "is_ValidationError (JsonSuccess i msg) = False"

fun is_StoreError :: "response \<Rightarrow> bool" where
  "is_StoreError (HttpError msg code) = (code = StatusInternalServerError)"
| "is_StoreError (JsonSuccess i msg) = False"

text \<open>
  The store after the first start, written out: the seven wards before and after their
  totals are computed, the administrator, the twelve sample submissions and the eight
  seeded achievements.
\<close>

definition seeded_wards0 :: "Ward list" where
  "seeded_wards0 =
  [\<lparr>ward_id = 1, ward_name = ''Fountain Green 1st Ward'', ward_points = 0, ward_pending_points = 0\<rparr>,
   \<lparr>ward_id = 2, ward_name = ''Fountain Green 2nd Ward'', ward_points = 0, ward_pending_points = 0\<rparr>,
   \<lparr>ward_id = 3, ward_name = ''Fountain Green 3rd Ward'', ward_points = 0, ward_pending_points = 0\<rparr>,
   \<lparr>ward_id = 4, ward_name = ''Moroni 1st Ward'', ward_points = 0, ward_pending_points = 0\<rparr>,
   \<lparr>ward_id = 5, ward_name = ''Moroni 2nd Ward'', ward_points = 0, ward_pending_points = 0\<rparr>,
   \<lparr>ward_id = 6, ward_name = ''Moroni 3rd Ward'', ward_points = 0, ward_pending_points = 0\<rparr>,
   \<lparr>ward_id = 7, ward_name = ''Sanpitch Ward'', ward_points = 0, ward_pending_points = 0\<rparr>]"

definition seeded_users :: "User list" where
  "seeded_users = [\<lparr>user_id = 1, user_email = ''admin@templepoints.org'', user_role = ''admin'',
          user_ward_id = None\<rparr>]"

definition seeded_sub :: "int \<Rightarrow> int \<Rightarrow> int \<Rightarrow> int \<Rightarrow> status \<Rightarrow> PointSubmission" where
  "seeded_sub now i w p st =
     \<lparr>sub_id = i, sub_ward_id = w, sub_submitter_name = ''Demo User'', sub_points = p,
      sub_note = ''Initial seed data'', sub_status = st, sub_approved_by = None,
      sub_approved_at = (if st = Approved then Some now else None), sub_created_at = now\<rparr>"

definition seeded_subs :: "int \<Rightarrow> PointSubmission list" where
  "seeded_subs now =
     [seeded_sub now 1 4 847 Approved, seeded_sub now 2 2 765 Approved,
      seeded_sub now 3 7 692 Approved, seeded_sub now 4 6 543 Approved,
      seeded_sub now 5 1 489 Approved, seeded_sub now 6 5 412 Approved,
      seeded_sub now 7 3 387 Approved, seeded_sub now 8 4 50 Pending,
      seeded_sub now 9 2 55 Pending, seeded_sub now 10 6 35 Pending,
      seeded_sub now 11 1 25 Pending, seeded_sub now 12 3 55 Pending]"

definition seeded_wards :: "Ward list" where
  "seeded_wards =
  [\<lparr>ward_id = 1, ward_name = ''Fountain Green 1st Ward'', ward_points = 489, ward_pending_points = 25\<rparr>,
   \<lparr>ward_id = 2, ward_name = ''Fountain Green 2nd Ward'', ward_points = 765, ward_pending_points = 55\<rparr>,
   \<lparr>ward_id = 3, ward_name = ''Fountain Green 3rd Ward'', ward_points = 387, ward_pending_points = 55\<rparr>,
   \<lparr>ward_id = 4, ward_name = ''Moroni 1st Ward'', ward_points = 847, ward_pending_points = 50\<rparr>,
   \<lparr>ward_id = 5, ward_name = ''Moroni 2nd Ward'', ward_points = 412, ward_pending_points = 0\<rparr>,
   \<lparr>ward_id = 6, ward_name = ''Moroni 3rd Ward'', ward_points = 543, ward_pending_points = 35\<rparr>,
   \<lparr>ward_id = 7, ward_name = ''Sanpitch Ward'', ward_points = 692, ward_pending_points = 0\<rparr>]"

definition seeded_achievements :: "Achievement list" where
  "seeded_achievements =
     [\<lparr>ach_id = 1, ach_ward_id = 4, ach_type = ''first_500'', ach_title = ''First to 500!'',
       ach_icon = [CHR 0xE2, CHR 0x9A, CHR 0xA1]\<rparr>,
      \<lparr>ach_id = 2, ach_ward_id = 4, ach_type = ''week_champion'', ach_title = ''Week Champion'',
       ach_icon = [CHR 0xF0, CHR 0x9F, CHR 0x8F, CHR 0x86]\<rparr>,
      \<lparr>ach_id = 3, ach_ward_id = 4, ach_type = ''streak_3'', ach_title = ''3 Day Streak!'',
       ach_icon = [CHR 0xF0, CHR 0x9F, CHR 0x94, CHR 0xA5]\<rparr>,
      \<lparr>ach_id = 4, ach_ward_id = 2, ach_type = ''rising_star'', ach_title = ''Rising Star'',
       ach_icon = [CHR 0xE2, CHR 0x9C, CHR 0xA8]\<rparr>,
      \<lparr>ach_id = 5, ach_ward_id = 2, ach_type = ''team_player'', ach_title = ''Team Player'',
       ach_icon = [CHR 0xF0, CHR 0x9F, CHR 0xA4, CHR 0x9D]\<rparr>,
      \<lparr>ach_id = 6, ach_ward_id = 7, ach_type = ''consistent'', ach_title = ''Consistent'',
       ach_icon = [CHR 0xF0, CHR 0x9F, CHR 0x93, CHR 0x8A]\<rparr>,
      \<lparr>ach_id = 7, ach_ward_id = 6, ach_type = ''getting_started'', ach_title = ''Getting Started'',
       ach_icon = [CHR 0xF0, CHR 0x9F, CHR 0x8C, CHR 0x9F]\<rparr>,
      \<lparr>ach_id = 8, ach_ward_id = 3, ach_type = ''momentum'', ach_title = ''Building Momentum!'',
       ach_icon = [CHR 0xF0, CHR 0x9F, CHR 0x9A, CHR 0x80]\<rparr>]"

text \<open>
  Requests for concrete evaluations: a request of the administrator (user 1), a request
  with a session cookie for which the \<^verbatim>\<open>users\<close> table has no row after the first start
  (user 2), and a submission. A hub with two connected clients, the second with a full
  \<^verbatim>\<open>send\<close> buffer.
\<close>

definition admin_request :: "string \<Rightarrow> Request" where
  "admin_request i = \<lparr>cookies = [(''session'', ''1'')], vars = [(''id'', i)], body = None\<rparr>"

definition stranger_request :: "string \<Rightarrow> Request" where
  "stranger_request i = \<lparr>cookies = [(''session'', ''2'')], vars = [(''id'', i)], body = None\<rparr>"

definition submit_request :: "int \<Rightarrow> string \<Rightarrow> int \<Rightarrow> Request" where
  "submit_request w name pts =
     \<lparr>cookies = [], vars = [],
      body = Some \<lparr>req_ward_id = w, req_submitter_name = name, req_points = pts,
                   req_note = []\<rparr>\<rparr>"

definition sample_event :: message where
  "sample_event = Message ''achievement'' (AchievementData ''A'' ''B'' ''A earned: B'')"

definition sample_hub :: Hub where
  "sample_hub =
     \<lparr>clients = [(1, []), (2, replicate 256 sample_event)], closed = [], broadcast = []\<rparr>"

section \<open>The state after the first start\<close>

lemma seed1: "fold insert_ward seed_wards
    \<lparr>wards = [], users = [], point_submissions = [], achievements = [], activity_logs = []\<rparr>
   = \<lparr>wards = seeded_wards0, users = [], point_submissions = [], achievements = [], activity_logs = []\<rparr>"
  by (simp add: seed_wards_def insert_ward_def next_id_def seeded_wards0_def)

lemma seed2: "insert_user ''admin@templepoints.org'' ''admin''
     \<lparr>wards = seeded_wards0, users = [], point_submissions = [], achievements = [], activity_logs = []\<rparr>
   = \<lparr>wards = seeded_wards0, users = seeded_users, point_submissions = [], achievements = [], activity_logs = []\<rparr>"
  by (simp add: insert_user_def next_id_def seeded_users_def)

lemma seed_sub_step:
  "w \<in> {1, 2, 3, 4, 5, 6, 7} \<Longrightarrow>
   seed_submission now (w, p, st)
     \<lparr>wards = seeded_wards0, users = us, point_submissions = subs, achievements = [], activity_logs = []\<rparr>
   = \<lparr>wards = seeded_wards0, users = us,
      point_submissions = subs @ [seeded_sub now (next_id (map sub_id subs)) w p st],
      achievements = [], activity_logs = []\<rparr>"
  by (auto simp: seed_submission_def insert_point_submission_def ward_exists_def seeded_wards0_def
      seeded_sub_def Let_def)

lemma sub_id_seeded: "sub_id (seeded_sub now i w p st) = i"
  by (simp add: seeded_sub_def)

lemma seed3: "fold (seed_submission now) sampleSubmissions
     \<lparr>wards = seeded_wards0, users = seeded_users, point_submissions = [], achievements = [], activity_logs = []\<rparr>
   = \<lparr>wards = seeded_wards0, users = seeded_users, point_submissions = seeded_subs now,
      achievements = [], activity_logs = []\<rparr>"
  by (simp add: sampleSubmissions_def seed_sub_step next_id_def seeded_subs_def sub_id_seeded)

lemma seed4: "recompute_ward_points
     \<lparr>wards = seeded_wards0, users = seeded_users, point_submissions = seeded_subs now,
      achievements = [], activity_logs = []\<rparr>
   = \<lparr>wards = seeded_wards, users = seeded_users, point_submissions = seeded_subs now,
      achievements = [], activity_logs = []\<rparr>"
  by (simp add: recompute_ward_points_def seeded_wards0_def seeded_wards_def sum_points_def
      seeded_subs_def seeded_sub_def)

lemma seed5: "fold seed_achievement seed_achievements
     \<lparr>wards = seeded_wards, users = seeded_users, point_submissions = seeded_subs now,
      achievements = [], activity_logs = []\<rparr>
   = \<lparr>wards = seeded_wards, users = seeded_users, point_submissions = seeded_subs now,
      achievements = seeded_achievements, activity_logs = []\<rparr>"
  by (simp add: seed_achievements_def seed_achievement_def insert_or_ignore_achievement_def
      ward_exists_def seeded_wards_def next_id_def seeded_achievements_def)

lemma initDB_eq: "initDB now =
    \<lparr>wards = seeded_wards, users = seeded_users, point_submissions = seeded_subs now,
      achievements = seeded_achievements, activity_logs = []\<rparr>"
  by (simp add: initDB_def seedData_def Let_def seed1 seed2 seed3 seed4 seed5)

lemma db_NewServer:
  "db (NewServer now) =
    \<lparr>wards = seeded_wards, users = seeded_users, point_submissions = seeded_subs now,
      achievements = seeded_achievements, activity_logs = []\<rparr>"
  by (simp add: NewServer_def initDB_eq)

lemma hub_NewServer: "hub (NewServer now) = \<lparr>clients = [], closed = [], broadcast = []\<rparr>"
  by (simp add: NewServer_def)

section \<open>Identity resolution\<close>

lemma digit_range: "d < 10 \<Longrightarrow> d \<in> {0, 1, 2, 3, 4, 5, 6, 7, 8, 9::nat}"
  by auto

lemma digit_of_digit_char: "d < 10 \<Longrightarrow> digit_of (digit_char d) = Some d"
  using digit_range [of d] by (auto simp: digit_char_def digit_of_def)

lemma digit_char_not_sign:
  "d < 10 \<Longrightarrow> digit_char d \<noteq> CHR ''-'' \<and> digit_char d \<noteq> CHR ''+''"
  using digit_range [of d] by (auto simp: digit_char_def)

lemma parse_digits_append:
  "parse_digits (xs @ ys) a =
     (case parse_digits xs a of None \<Rightarrow> None | Some b \<Rightarrow> parse_digits ys b)"
  by (induction xs arbitrary: a) (auto split: option.splits)

lemma parse_nat_digits:
  "parse_digits (nat_digits n) a = Some (a * 10 ^ length (nat_digits n) + n)"
proof (induction n arbitrary: a rule: nat_digits.induct)
  case (1 n)
  show ?case
  proof (cases "n < 10")
    case True
    then show ?thesis
      by (simp add: nat_digits.simps [of n] digit_of_digit_char)
  next
    case False
    have m: "n mod 10 < 10" by simp
    from False "1.IH" [of a] show ?thesis
      by (simp add: nat_digits.simps [of n] parse_digits_append digit_of_digit_char [OF m]
          algebra_simps)
  qed
qed

lemma nat_digits_nonempty: "nat_digits n \<noteq> []"
  by (subst nat_digits.simps) simp

lemma nat_digits_head: "\<exists>d cs. d < 10 \<and> nat_digits n = digit_char d # cs"
proof (induction n rule: nat_digits.induct)
  case (1 n)
  show ?case
  proof (cases "n < 10")
    case True
    then show ?thesis by (subst nat_digits.simps) auto
  next
    case False
    with "1.IH" obtain d cs where "d < 10" "nat_digits (n div 10) = digit_char d # cs"
      by auto
    with False show ?thesis by (subst nat_digits.simps) auto
  qed
qed

lemma Atoi_nat_digits:
  assumes "int n \<le> 2 ^ 63 - 1"
  shows "Atoi (nat_digits n) = Some (int n)"
proof -
  obtain d cs where d: "d < 10" "nat_digits n = digit_char d # cs"
    using nat_digits_head by blast
  have p: "parse_digits (digit_char d # cs) 0 = Some n"
    using parse_nat_digits [of n 0] d by simp
  show ?thesis
    using assms digit_char_not_sign [OF d(1)] p
    unfolding Atoi_def d(2) by (simp del: parse_digits.simps)
qed

lemma Atoi_itoa:
  assumes "- (2 ^ 63) \<le> i" "i \<le> 2 ^ 63 - 1"
  shows "Atoi (itoa i) = Some i"
proof (cases "i < 0")
  case False
  with assms Atoi_nat_digits [of "nat i"] show ?thesis by (simp add: itoa_def)
next
  case True
  have "parse_digits (nat_digits (nat (- i))) 0 = Some (nat (- i))"
    using parse_nat_digits [of "nat (- i)" 0] by simp
  with True assms show ?thesis
    by (simp add: itoa_def Atoi_def nat_digits_nonempty)
qed

text \<open>
  Claim C10. The identity of a request is a function of the value of its \<^verbatim>\<open>session\<close>
  cookie alone (\<open>getUserIDFromSession\<close> takes the request and never the store): two
  requests with the same \<^verbatim>\<open>session\<close> cookie resolve to the same identity; a request
  whose cookie is the decimal numeral of \<open>n\<close>, as \<^verbatim>\<open>handleLogin\<close> writes it for user
  \<open>n\<close>, resolves to \<open>n\<close>, for every \<open>n\<close> of Go's 64-bit \<^verbatim>\<open>int\<close>; a request with no
  \<^verbatim>\<open>session\<close> cookie, or with one that \<^verbatim>\<open>strconv.Atoi\<close> does not accept, resolves to
  the unauthenticated identity 0.
\<close>

theorem session_identity:
  "(map_of (cookies r1) ''session'' = map_of (cookies r2) ''session''
      \<longrightarrow> getUserIDFromSession r1 = getUserIDFromSession r2)
   \<and> (- (2 ^ 63) \<le> n \<and> n \<le> 2 ^ 63 - 1
        \<and> map_of (cookies r) ''session'' = Some (snd (session_cookie n))
      \<longrightarrow> getUserIDFromSession r = n)
   \<and> (map_of (cookies r) ''session'' = None \<longrightarrow> getUserIDFromSession r = 0)
   \<and> (map_of (cookies r) ''session'' = Some v \<and> Atoi v = None
      \<longrightarrow> getUserIDFromSession r = 0)"
  by (simp add: getUserIDFromSession_def session_cookie_def Atoi_itoa)

theorem session_identity_witness:
  "getUserIDFromSession \<lparr>cookies = [(''session'', ''42'')], vars = [], body = None\<rparr>
     = getUserIDFromSession \<lparr>cookies = [(''session'', ''42'')], vars = [(''id'', ''7'')], body = None\<rparr>
   \<and> getUserIDFromSession \<lparr>cookies = [session_cookie 42], vars = [], body = None\<rparr> = 42
   \<and> getUserIDFromSession \<lparr>cookies = [], vars = [], body = None\<rparr> = 0
   \<and> Atoi ''4x2'' = None
   \<and> getUserIDFromSession \<lparr>cookies = [(''session'', ''4x2'')], vars = [], body = None\<rparr> = 0"
proof -
  have a: "Atoi ''4x2'' = None"
    by (simp add: Atoi_def digit_of_def)
  have 1: "getUserIDFromSession \<lparr>cookies = [(''session'', ''42'')], vars = [], body = None\<rparr>
     = getUserIDFromSession \<lparr>cookies = [(''session'', ''42'')], vars = [(''id'', ''7'')], body = None\<rparr>"
   and 2: "getUserIDFromSession \<lparr>cookies = [session_cookie 42], vars = [], body = None\<rparr> = 42"
    using session_identity [of "\<lparr>cookies = [(''session'', ''42'')], vars = [], body = None\<rparr>"
        "\<lparr>cookies = [(''session'', ''42'')], vars = [(''id'', ''7'')], body = None\<rparr>"
        42 "\<lparr>cookies = [session_cookie 42], vars = [], body = None\<rparr>" "''4x2''"]
    by (simp_all add: session_cookie_def)
  have 3: "getUserIDFromSession \<lparr>cookies = [], vars = [], body = None\<rparr> = 0"
    using session_identity [of "\<lparr>cookies = [], vars = [], body = None\<rparr>"
        "\<lparr>cookies = [], vars = [], body = None\<rparr>" 0
        "\<lparr>cookies = [], vars = [], body = None\<rparr>" "''4x2''"]
    by simp
  have 4: "getUserIDFromSession \<lparr>cookies = [(''session'', ''4x2'')], vars = [], body = None\<rparr> = 0"
    using a session_identity [of "\<lparr>cookies = [], vars = [], body = None\<rparr>"
        "\<lparr>cookies = [], vars = [], body = None\<rparr>" 0
        "\<lparr>cookies = [(''session'', ''4x2'')], vars = [], body = None\<rparr>" "''4x2''"]
    by simp
  from 1 2 3 4 a show ?thesis by blast
qed

section \<open>Validation of a submission\<close>

text \<open>
  Claim C7. A submit request whose point amount is zero or negative, or whose submitter
  name is empty, is answered with the status 400 (the specification's
  \<open>ValidationError\<close>), and the state of the server is the state before the request: no
  row of \<^verbatim>\<open>point_submissions\<close> or \<^verbatim>\<open>activity_logs\<close> is written, no ward total
  changes, and no event is broadcast.
\<close>

theorem submit_invalid_rejected:
  assumes "body r = Some b" and "req_points b \<le> 0 \<or> req_submitter_name b = []"
  shows "handleSubmitPoints now r s = (HttpError ''Missing required fields'' StatusBadRequest, s)"
  using assms by (auto simp: handleSubmitPoints_def)

theorem submit_invalid_rejected_witness:
  "body (submit_request 1 ''Ann'' 0)
     = Some \<lparr>req_ward_id = 1, req_submitter_name = ''Ann'', req_points = 0, req_note = []\<rparr>
   \<and> handleSubmitPoints 7 (submit_request 1 ''Ann'' 0) (NewServer 0)
       = (HttpError ''Missing required fields'' StatusBadRequest, NewServer 0)
   \<and> body (submit_request 1 [] 5)
     = Some \<lparr>req_ward_id = 1, req_submitter_name = [], req_points = 5, req_note = []\<rparr>
   \<and> handleSubmitPoints 7 (submit_request 1 [] 5) (NewServer 0)
       = (HttpError ''Missing required fields'' StatusBadRequest, NewServer 0)"
proof -
  have a: "body (submit_request 1 ''Ann'' 0)
     = Some \<lparr>req_ward_id = 1, req_submitter_name = ''Ann'', req_points = 0, req_note = []\<rparr>"
    and b: "body (submit_request 1 [] 5)
     = Some \<lparr>req_ward_id = 1, req_submitter_name = [], req_points = 5, req_note = []\<rparr>"
    by (simp_all add: submit_request_def)
  have 1: "handleSubmitPoints 7 (submit_request 1 ''Ann'' 0) (NewServer 0)
       = (HttpError ''Missing required fields'' StatusBadRequest, NewServer 0)"
    by (rule submit_invalid_rejected [OF a]) simp
  have 2: "handleSubmitPoints 7 (submit_request 1 [] 5) (NewServer 0)
       = (HttpError ''Missing required fields'' StatusBadRequest, NewServer 0)"
    by (rule submit_invalid_rejected [OF b]) simp
  from a b 1 2 show ?thesis by blast
qed

text \<open>
  Claim C8, as the code has it. A submit request whose ward id names no ward fails and
  leaves the state of the server as it was, so no submission row is inserted. When the
  ward id is 0 (or the name is empty, or the points are not positive) the handler's own
  validation answers with the status 400 before any statement is run. Otherwise the
  handler runs the \<^verbatim>\<open>INSERT\<close>, the store refuses it for the foreign key on
  \<^verbatim>\<open>ward_id\<close>, and the handler answers with the status 500 (the specification's
  \<open>StoreError\<close>), not with a validation error.
\<close>

theorem submit_unknown_ward:
  assumes "body r = Some b" and "\<not> ward_exists (db s) (req_ward_id b)"
  shows "handleSubmitPoints now r s =
           (if req_ward_id b = 0 \<or> req_submitter_name b = [] \<or> req_points b \<le> 0
            then HttpError ''Missing required fields'' StatusBadRequest
            else HttpError ''Failed to submit points'' StatusInternalServerError, s)"
  using assms by (simp add: handleSubmitPoints_def insert_point_submission_def)

theorem submit_unknown_ward_witness:
  "body (submit_request 42 ''Ann'' 5)
     = Some \<lparr>req_ward_id = 42, req_submitter_name = ''Ann'', req_points = 5, req_note = []\<rparr>
   \<and> \<not> ward_exists (db (NewServer 0)) 42
   \<and> handleSubmitPoints 7 (submit_request 42 ''Ann'' 5) (NewServer 0)
       = (HttpError ''Failed to submit points'' StatusInternalServerError, NewServer 0)
   \<and> body (submit_request 0 ''Ann'' 5)
     = Some \<lparr>req_ward_id = 0, req_submitter_name = ''Ann'', req_points = 5, req_note = []\<rparr>
   \<and> \<not> ward_exists (db (NewServer 0)) 0
   \<and> handleSubmitPoints 7 (submit_request 0 ''Ann'' 5) (NewServer 0)
       = (HttpError ''Missing required fields'' StatusBadRequest, NewServer 0)"
proof -
  have a: "body (submit_request 42 ''Ann'' 5)
     = Some \<lparr>req_ward_id = 42, req_submitter_name = ''Ann'', req_points = 5, req_note = []\<rparr>"
    and b: "body (submit_request 0 ''Ann'' 5)
     = Some \<lparr>req_ward_id = 0, req_submitter_name = ''Ann'', req_points = 5, req_note = []\<rparr>"
    by (simp_all add: submit_request_def)
  have w: "\<not> ward_exists (db (NewServer 0)) 42" and z: "\<not> ward_exists (db (NewServer 0)) 0"
    by (simp_all add: ward_exists_def db_NewServer seeded_wards_def)
  have 1: "handleSubmitPoints 7 (submit_request 42 ''Ann'' 5) (NewServer 0)
       = (HttpError ''Failed to submit points'' StatusInternalServerError, NewServer 0)"
    using submit_unknown_ward [OF a, of "NewServer 0" 7] w by simp
  have 2: "handleSubmitPoints 7 (submit_request 0 ''Ann'' 5) (NewServer 0)
       = (HttpError ''Missing required fields'' StatusBadRequest, NewServer 0)"
    using submit_unknown_ward [OF b, of "NewServer 0" 7] z by simp
  from a b w z 1 2 show ?thesis by blast
qed

text \<open>
  The claim as stated fails: no ward 99 exists after the first start, and a well-formed
  submission for it is answered with the status 500 of a store failure, which is not a
  validation error.
\<close>

theorem submit_unknown_ward_counterexample:
  "\<not> ward_exists (db (NewServer 0)) 99
   \<and> handleSubmitPoints 5 (submit_request 99 ''Ann'' 5) (NewServer 0)
       = (HttpError ''Failed to submit points'' StatusInternalServerError, NewServer 0)
   \<and> is_StoreError (fst (handleSubmitPoints 5 (submit_request 99 ''Ann'' 5) (NewServer 0)))
   \<and> \<not> is_ValidationError (fst (handleSubmitPoints 5 (submit_request 99 ''Ann'' 5) (NewServer 0)))"
proof -
  have w: "\<not> ward_exists (db (NewServer 0)) 99"
    by (simp add: ward_exists_def db_NewServer seeded_wards_def)
  then have "handleSubmitPoints 5 (submit_request 99 ''Ann'' 5) (NewServer 0)
       = (HttpError ''Failed to submit points'' StatusInternalServerError, NewServer 0)"
    by (simp add: handleSubmitPoints_def insert_point_submission_def submit_request_def)
  with w show ?thesis
    by (simp add: StatusInternalServerError_def StatusBadRequest_def)
qed

section \<open>Leaderboard progress\<close>








section \<open>Broadcast to the registered clients\<close>

lemma map_filter_cong:
  "(\<And>x. x \<in> set xs \<Longrightarrow> P x = Q x) \<Longrightarrow> (\<And>x. x \<in> set xs \<Longrightarrow> Q x \<Longrightarrow> f x = g x)
   \<Longrightarrow> map f (filter P xs) = map g (filter Q xs)"
  by (induction xs) auto

lemma broadcast_loop_clients:
  "distinct (map fst cs) \<Longrightarrow>
   clients (broadcast_loop m cs h) =
     map (\<lambda>p. case map_of cs (fst p) of Some q \<Rightarrow> (fst p, q @ [m]) | None \<Rightarrow> p)
       (filter (\<lambda>p. case map_of cs (fst p) of Some q \<Rightarrow> length q < send_capacity | None \<Rightarrow> True)
          (clients h))"
proof (induction cs arbitrary: h)
  case Nil
  show ?case by simp
next
  case (Cons a cs)
  obtain c q where a: "a = (c, q)" by (cases a)
  from Cons.prems a have fresh: "map_of cs c = None" and d: "distinct (map fst cs)"
    by (auto simp: map_of_eq_None_iff)
  show ?case
  proof (cases "length q < send_capacity")
    case True
    show ?thesis
      unfolding a using True fresh
      by (simp add: Cons.IH [OF d] filter_map comp_def)
  next
    case False
    show ?thesis
      unfolding a using False fresh
      by (simp add: Cons.IH [OF d]) (rule map_filter_cong; auto)
  qed
qed

lemma broadcast_loop_closed:
  "closed (broadcast_loop m cs h) =
     closed h @ map fst (filter (\<lambda>p. \<not> length (snd p) < send_capacity) cs)"
  by (induction cs arbitrary: h) auto

lemma hub_broadcast_clients:
  assumes "distinct (map fst (clients h))"
  shows "clients (hub_broadcast m h) =
     map (\<lambda>p. (fst p, snd p @ [m])) (filter (\<lambda>p. length (snd p) < send_capacity) (clients h))"
proof -
  have k: "\<And>p. p \<in> set (clients h) \<Longrightarrow> map_of (clients h) (fst p) = Some (snd p)"
    using assms by simp
  have "clients (hub_broadcast m h) =
     map (\<lambda>p. case map_of (clients h) (fst p) of Some q \<Rightarrow> (fst p, q @ [m]) | None \<Rightarrow> p)
       (filter (\<lambda>p. case map_of (clients h) (fst p) of Some q \<Rightarrow> length q < send_capacity | None \<Rightarrow> True)
          (clients h))"
    unfolding hub_broadcast_def using assms by (simp add: broadcast_loop_clients)
  also have "\<dots> = map (\<lambda>p. (fst p, snd p @ [m])) (filter (\<lambda>p. length (snd p) < send_capacity) (clients h))"
    using k by (intro map_filter_cong) auto
  finally show ?thesis .
qed

lemma broadcast_loop_broadcast: "broadcast (broadcast_loop m cs h) = broadcast h"
  by (induction cs arbitrary: h) auto

text \<open>
  Claim C5. When the hub broadcasts an event, a registered client whose \<^verbatim>\<open>send\<close> buffer is
  full is deleted from the set of clients and its channel is closed, and every other
  registered client stays registered with the event appended to its buffer. No client is
  added, and the event is the one received from \<^verbatim>\<open>h.broadcast\<close>. The keys of the Go map
  \<^verbatim>\<open>h.clients\<close> are distinct.
\<close>

theorem broadcast_drops_full_keeps_others:
  assumes "distinct (map fst (clients h))" and "(c, q) \<in> set (clients h)"
  shows "(if length q < send_capacity
          then (c, q @ [m]) \<in> set (clients (hub_broadcast m h))
          else c \<notin> set (map fst (clients (hub_broadcast m h)))
               \<and> c \<in> set (closed (hub_broadcast m h)))
         \<and> set (map fst (clients (hub_broadcast m h))) \<subseteq> set (map fst (clients h))
         \<and> broadcast (hub_broadcast m h) = broadcast h @ [m]"
proof -
  let ?h' = "hub_broadcast m h"
  have cl: "clients ?h' =
     map (\<lambda>p. (fst p, snd p @ [m])) (filter (\<lambda>p. length (snd p) < send_capacity) (clients h))"
    using assms(1) by (rule hub_broadcast_clients)
  have only: "\<And>q'. (c, q') \<in> set (clients h) \<Longrightarrow> q' = q"
    using assms by (meson eq_key_imp_eq_value)
  have cd: "closed ?h' =
     closed h @ map fst (filter (\<lambda>p. \<not> length (snd p) < send_capacity) (clients h))"
    by (simp add: hub_broadcast_def broadcast_loop_closed)
  have 1: "length q < send_capacity \<Longrightarrow> (c, q @ [m]) \<in> set (clients ?h')"
    using assms(2) unfolding cl by force
  have 2: "\<not> length q < send_capacity \<Longrightarrow> c \<notin> set (map fst (clients ?h'))"
    using only unfolding cl by (auto simp: comp_def)
  have 3: "\<not> length q < send_capacity \<Longrightarrow> c \<in> set (closed ?h')"
    using assms(2) unfolding cd by force
  have 4: "set (map fst (clients ?h')) \<subseteq> set (map fst (clients h))"
    unfolding cl by (auto simp: comp_def)
  have 5: "broadcast ?h' = broadcast h @ [m]"
    by (simp add: hub_broadcast_def broadcast_loop_broadcast)
  from 1 2 3 4 5 show ?thesis by simp
qed

theorem broadcast_drops_full_keeps_others_witness:
  "distinct (map fst (clients sample_hub))
   \<and> (1, []) \<in> set (clients sample_hub)
   \<and> (2, replicate 256 sample_event) \<in> set (clients sample_hub)
   \<and> length (replicate 256 sample_event) = send_capacity
   \<and> (1, [sample_event]) \<in> set (clients (hub_broadcast sample_event sample_hub))
   \<and> 2 \<notin> set (map fst (clients (hub_broadcast sample_event sample_hub)))
   \<and> 2 \<in> set (closed (hub_broadcast sample_event sample_hub))"
proof -
  have d: "distinct (map fst (clients sample_hub))"
    and a: "(1, []) \<in> set (clients sample_hub)"
    and b: "(2, replicate 256 sample_event) \<in> set (clients sample_hub)"
    by (simp_all add: sample_hub_def)
  have l: "length (replicate 256 sample_event) = send_capacity"
    by (simp add: send_capacity_def)
  from broadcast_drops_full_keeps_others [OF d a, of sample_event]
  have 1: "(1, [sample_event]) \<in> set (clients (hub_broadcast sample_event sample_hub))"
    by (simp add: send_capacity_def)
  from broadcast_drops_full_keeps_others [OF d b, of sample_event] l
  have 2: "2 \<notin> set (map fst (clients (hub_broadcast sample_event sample_hub)))
           \<and> 2 \<in> set (closed (hub_broadcast sample_event sample_hub))"
    by simp
  from d a b l 1 2 show ?thesis by blast
qed

section \<open>Approve and reject\<close>

subsection \<open>What the helpers leave untouched\<close>

lemma db_broadcastUpdate [simp]: "db (broadcastUpdate t p s) = db s"
  by (simp add: broadcastUpdate_def)

lemma db_broadcastLeaderboardUpdate [simp]: "db (broadcastLeaderboardUpdate now s) = db s"
  by (simp add: broadcastLeaderboardUpdate_def)

lemma db_broadcastAchievement [simp]: "db (broadcastAchievement w a s) = db s"
  by (simp add: broadcastAchievement_def Let_def)

lemma insert_or_ignore_frame:
  "wards (snd (insert_or_ignore_achievement w ty t ic d)) = wards d
   \<and> users (snd (insert_or_ignore_achievement w ty t ic d)) = users d
   \<and> point_submissions (snd (insert_or_ignore_achievement w ty t ic d)) = point_submissions d
   \<and> activity_logs (snd (insert_or_ignore_achievement w ty t ic d)) = activity_logs d"
  by (simp add: insert_or_ignore_achievement_def)

lemma award_loop_frame:
  "wards (db (award_loop w tbl s)) = wards (db s)
   \<and> users (db (award_loop w tbl s)) = users (db s)
   \<and> point_submissions (db (award_loop w tbl s)) = point_submissions (db s)
   \<and> activity_logs (db (award_loop w tbl s)) = activity_logs (db s)"
proof (induction w tbl s rule: award_loop.induct)
  case (1 wardID s)
  show ?case by simp
next
  case (2 wardID condition aType title icon rest s)
  show ?case
    using insert_or_ignore_frame [of wardID aType title icon "db s"]
    by (auto simp: "2.IH" split: prod.splits)
qed

lemma checkAndAward_frame:
  "wards (db (checkAndAwardAchievements w s)) = wards (db s)
   \<and> users (db (checkAndAwardAchievements w s)) = users (db s)
   \<and> point_submissions (db (checkAndAwardAchievements w s)) = point_submissions (db s)
   \<and> activity_logs (db (checkAndAwardAchievements w s)) = activity_logs (db s)"
  by (simp add: checkAndAwardAchievements_def Let_def award_loop_frame)

lemma logActivity_frame:
  "wards (logActivity now w u a dt p d) = wards d
   \<and> users (logActivity now w u a dt p d) = users d
   \<and> point_submissions (logActivity now w u a dt p d) = point_submissions d
   \<and> achievements (logActivity now w u a dt p d) = achievements d"
  by (simp add: logActivity_def)

lemma canApprove_user_exists: "canApproveForWard d u w \<Longrightarrow> user_exists d u"
  by (auto simp: canApproveForWard_def user_exists_def find_Some_iff split: option.splits)

lemma select_pending_Some:
  "select_pending i d = Some sub \<Longrightarrow>
     sub \<in> set (point_submissions d) \<and> sub_id sub = i \<and> sub_status sub = Pending"
  by (auto simp: select_pending_def find_Some_iff)

subsection \<open>The successful paths\<close>

lemma approve_success:
  assumes "getUserIDFromSession r = uid" and "uid \<noteq> 0"
    and "Atoi (route_var r ''id'') = Some i"
    and "select_pending i (db s) = Some sub"
    and "canApproveForWard (db s) uid (sub_ward_id sub)"
  shows "handleApprovePoints now r s =
    (JsonSuccess None ''Points approved successfully!'',
     broadcastLeaderboardUpdate now
       ((checkAndAwardAchievements (sub_ward_id sub)
          (s\<lparr>db := update_ward_points (sub_points sub) (sub_points sub) (sub_ward_id sub)
             (the (update_submission_status Approved uid now i (db s)))\<rparr>))
        \<lparr>db := logActivity now (sub_ward_id sub) (Some uid) ''points_approved''
                 (''Approved '' @ itoa (sub_points sub) @ '' points from '' @ sub_submitter_name sub)
                 (sub_points sub)
                 (db (checkAndAwardAchievements (sub_ward_id sub)
          (s\<lparr>db := update_ward_points (sub_points sub) (sub_points sub) (sub_ward_id sub)
             (the (update_submission_status Approved uid now i (db s)))\<rparr>)))\<rparr>))"
  using assms canApprove_user_exists [OF assms(5)]
  by (simp add: handleApprovePoints_def Let_def update_submission_status_def)

lemma approve_db:
  assumes "getUserIDFromSession r = uid" and "uid \<noteq> 0"
    and "Atoi (route_var r ''id'') = Some i"
    and "select_pending i (db s) = Some sub"
    and "canApproveForWard (db s) uid (sub_ward_id sub)"
  shows "fst (handleApprovePoints now r s) = JsonSuccess None ''Points approved successfully!''
    \<and> point_submissions (db (snd (handleApprovePoints now r s))) =
        map (\<lambda>x. if sub_id x = i
                  then x\<lparr>sub_status := Approved, sub_approved_by := Some uid,
                          sub_approved_at := Some now\<rparr>
                  else x) (point_submissions (db s))
    \<and> sub\<lparr>sub_status := Approved, sub_approved_by := Some uid, sub_approved_at := Some now\<rparr>
        \<in> set (point_submissions (db (snd (handleApprovePoints now r s))))
    \<and> wards (db (snd (handleApprovePoints now r s))) =
        map (\<lambda>x. if ward_id x = sub_ward_id sub
                  then x\<lparr>ward_points := ward_points x + sub_points sub,
                          ward_pending_points := ward_pending_points x - sub_points sub\<rparr>
                  else x) (wards (db s))"
proof -
  have ue: "user_exists (db s) uid"
    using assms(5) by (rule canApprove_user_exists)
  have m: "sub \<in> set (point_submissions (db s))" "sub_id sub = i"
    using select_pending_Some [OF assms(4)] by simp_all
  have u: "the (update_submission_status Approved uid now i (db s)) =
      (db s)\<lparr>point_submissions :=
        map (\<lambda>x. if sub_id x = i
                  then x\<lparr>sub_status := Approved, sub_approved_by := Some uid,
                          sub_approved_at := Some now\<rparr>
                  else x) (point_submissions (db s))\<rparr>"
    using ue by (simp add: update_submission_status_def)
  have mem: "sub\<lparr>sub_status := Approved, sub_approved_by := Some uid, sub_approved_at := Some now\<rparr>
      \<in> set (map (\<lambda>x. if sub_id x = i
                  then x\<lparr>sub_status := Approved, sub_approved_by := Some uid,
                          sub_approved_at := Some now\<rparr>
                  else x) (point_submissions (db s)))"
    using m by force
  show ?thesis
    unfolding approve_success [OF assms]
    using mem
    by (simp add: checkAndAward_frame logActivity_frame u update_ward_points_def)
qed



subsection \<open>Requests after the first start\<close>

lemma admin_session: "getUserIDFromSession (admin_request i) = 1"
  by (simp add: getUserIDFromSession_def admin_request_def Atoi_def digit_of_def)

lemma stranger_session: "getUserIDFromSession (stranger_request i) = 2"
  by (simp add: getUserIDFromSession_def stranger_request_def Atoi_def digit_of_def)

lemma route_ids:
  "Atoi (route_var (admin_request ''8'') ''id'') = Some 8"
  "Atoi (route_var (admin_request ''1'') ''id'') = Some 1"
  "Atoi (route_var (stranger_request ''8'') ''id'') = Some 8"
  by (simp_all add: route_var_def admin_request_def stranger_request_def Atoi_def digit_of_def)

lemma seeded_select_pending:
  "select_pending 8 (db (NewServer now)) = Some (seeded_sub now 8 4 50 Pending)"
  by (simp add: select_pending_def db_NewServer seeded_subs_def sub_id_seeded)
     (simp add: seeded_sub_def)

lemma seeded_pending_fields:
  "sub_ward_id (seeded_sub now 8 4 50 Pending) = 4"
  "sub_points (seeded_sub now 8 4 50 Pending) = 50"
  by (simp_all add: seeded_sub_def)

lemma seeded_can_approve:
  "canApproveForWard (db (NewServer now)) 1 4"
  "\<not> canApproveForWard (db (NewServer now)) 2 4"
  by (simp_all add: canApproveForWard_def db_NewServer seeded_users_def)

lemma seeded_first_not_pending:
  "\<not> list_ex (\<lambda>x. sub_id x = 1 \<and> sub_status x = Pending)
       (point_submissions (db (NewServer now)))"
  by (simp add: db_NewServer seeded_subs_def seeded_sub_def)






subsection \<open>The failing paths of approve\<close>

lemma approve_not_found:
  assumes "getUserIDFromSession r \<noteq> 0" and "Atoi (route_var r ''id'') = Some i"
    and "select_pending i (db s) = None"
  shows "handleApprovePoints now r s =
      (HttpError ''Submission not found or already processed'' StatusNotFound, s)"
  using assms by (simp add: handleApprovePoints_def Let_def)

lemma approve_forbidden:
  assumes "getUserIDFromSession r \<noteq> 0" and "Atoi (route_var r ''id'') = Some i"
    and "select_pending i (db s) = Some sub"
    and "\<not> canApproveForWard (db s) (getUserIDFromSession r) (sub_ward_id sub)"
  shows "handleApprovePoints now r s =
      (HttpError ''Not authorized to approve for this ward'' StatusForbidden, s)"
  using assms by (simp add: handleApprovePoints_def Let_def)

lemma select_pending_after_update:
  assumes "st \<noteq> Pending"
  shows "find (\<lambda>x. sub_id x = i \<and> sub_status x = Pending)
       (map (\<lambda>x. if sub_id x = i
                  then x\<lparr>sub_status := st, sub_approved_by := Some u, sub_approved_at := Some t\<rparr>
                  else x) subs) = None"
  using assms by (induction subs) auto

lemma approve_success_only:
  assumes "getUserIDFromSession r \<noteq> 0" and "Atoi (route_var r ''id'') = Some i"
   and a: "fst (handleApprovePoints now r s) = JsonSuccess None ''Points approved successfully!''"
  shows "\<exists>sub'. select_pending i (db s) = Some sub'
            \<and> canApproveForWard (db s) (getUserIDFromSession r) (sub_ward_id sub')"
  proof (cases "select_pending i (db s)")
    case None
    from approve_not_found [OF assms(1,2) None, of now] a show ?thesis by simp
  next
    case (Some sub')
    show ?thesis
    proof (cases "canApproveForWard (db s) (getUserIDFromSession r) (sub_ward_id sub')")
      case True
      with Some show ?thesis by simp
    next
      case False
      from approve_forbidden [OF assms(1,2) Some False, of now] a show ?thesis by simp
    qed
  qed

lemma approve_twice:
  assumes "getUserIDFromSession r \<noteq> 0" and "Atoi (route_var r ''id'') = Some i"
    and a: "fst (handleApprovePoints now r s) = JsonSuccess None ''Points approved successfully!''"
    and "getUserIDFromSession r2 \<noteq> 0" and "Atoi (route_var r2 ''id'') = Some i"
  shows "handleApprovePoints now2 r2 (snd (handleApprovePoints now r s)) =
           (HttpError ''Submission not found or already processed'' StatusNotFound,
            snd (handleApprovePoints now r s))"
proof -
  from approve_success_only [OF assms(1,2) a]
  obtain sub' where sp: "select_pending i (db s) = Some sub'"
    and ca: "canApproveForWard (db s) (getUserIDFromSession r) (sub_ward_id sub')"
    by blast
  note e = approve_db [OF refl assms(1) assms(2) sp ca, of now]
  from e have "point_submissions (db (snd (handleApprovePoints now r s))) =
        map (\<lambda>x. if sub_id x = i
                  then x\<lparr>sub_status := Approved, sub_approved_by := Some (getUserIDFromSession r),
                          sub_approved_at := Some now\<rparr>
                  else x) (point_submissions (db s))"
    by (elim conjE)
  then have "select_pending i (db (snd (handleApprovePoints now r s))) = None"
    unfolding select_pending_def by (simp only: select_pending_after_update status.distinct simp_thms)
  then show ?thesis
    by (rule approve_not_found [OF assms(4,5)])
qed

text \<open>
  Claim C3. For an authenticated caller and a well-formed submission id,
  \<^verbatim>\<open>handleApprovePoints\<close> answers 404 and changes nothing when no submission with that id
  is pending (none exists, or it is already approved or rejected); it answers 403 and
  changes nothing when the pending submission's ward is not one the caller may approve
  for; and after a successful approval, a second approval of the same id by any
  authenticated caller answers 404 and leaves the state, the ward totals with it, as the
  first approval left it.
\<close>

theorem approve_errors:
  assumes "getUserIDFromSession r \<noteq> 0" and "Atoi (route_var r ''id'') = Some i"
  shows "(\<not> list_ex (\<lambda>x. sub_id x = i \<and> sub_status x = Pending) (point_submissions (db s))
            \<longrightarrow> handleApprovePoints now r s =
                  (HttpError ''Submission not found or already processed'' StatusNotFound, s))
    \<and> (select_pending i (db s) = Some sub
          \<and> \<not> canApproveForWard (db s) (getUserIDFromSession r) (sub_ward_id sub)
            \<longrightarrow> handleApprovePoints now r s =
                  (HttpError ''Not authorized to approve for this ward'' StatusForbidden, s))
    \<and> (fst (handleApprovePoints now r s) = JsonSuccess None ''Points approved successfully!''
          \<and> getUserIDFromSession r2 \<noteq> 0 \<and> Atoi (route_var r2 ''id'') = Some i
            \<longrightarrow> handleApprovePoints now2 r2 (snd (handleApprovePoints now r s)) =
                  (HttpError ''Submission not found or already processed'' StatusNotFound,
                   snd (handleApprovePoints now r s)))"
proof -
  have 1: "\<not> list_ex (\<lambda>x. sub_id x = i \<and> sub_status x = Pending) (point_submissions (db s))
      \<Longrightarrow> handleApprovePoints now r s =
                  (HttpError ''Submission not found or already processed'' StatusNotFound, s)"
  proof -
    assume "\<not> list_ex (\<lambda>x. sub_id x = i \<and> sub_status x = Pending) (point_submissions (db s))"
    then have "select_pending i (db s) = None"
      by (simp add: select_pending_def find_None_iff list_ex_iff)
    then show ?thesis by (rule approve_not_found [OF assms])
  qed
  note 2 = approve_forbidden [OF assms, of s sub now]
  note 3 = approve_twice [OF assms, of now s r2 now2]
  from 1 2 3 show ?thesis by blast
qed

theorem approve_errors_witness:
  "getUserIDFromSession (admin_request ''1'') \<noteq> 0
   \<and> Atoi (route_var (admin_request ''1'') ''id'') = Some 1
   \<and> \<not> list_ex (\<lambda>x. sub_id x = 1 \<and> sub_status x = Pending)
          (point_submissions (db (NewServer 0)))
   \<and> handleApprovePoints 7 (admin_request ''1'') (NewServer 0)
       = (HttpError ''Submission not found or already processed'' StatusNotFound, NewServer 0)
   \<and> getUserIDFromSession (stranger_request ''8'') \<noteq> 0
   \<and> Atoi (route_var (stranger_request ''8'') ''id'') = Some 8
   \<and> select_pending 8 (db (NewServer 0)) = Some (seeded_sub 0 8 4 50 Pending)
   \<and> \<not> canApproveForWard (db (NewServer 0)) (getUserIDFromSession (stranger_request ''8''))
          (sub_ward_id (seeded_sub 0 8 4 50 Pending))
   \<and> handleApprovePoints 7 (stranger_request ''8'') (NewServer 0)
       = (HttpError ''Not authorized to approve for this ward'' StatusForbidden, NewServer 0)
   \<and> getUserIDFromSession (admin_request ''8'') \<noteq> 0
   \<and> Atoi (route_var (admin_request ''8'') ''id'') = Some 8
   \<and> fst (handleApprovePoints 7 (admin_request ''8'') (NewServer 0))
       = JsonSuccess None ''Points approved successfully!''
   \<and> handleApprovePoints 9 (admin_request ''8'')
         (snd (handleApprovePoints 7 (admin_request ''8'') (NewServer 0)))
       = (HttpError ''Submission not found or already processed'' StatusNotFound,
          snd (handleApprovePoints 7 (admin_request ''8'') (NewServer 0)))"
proof -
  have a1: "getUserIDFromSession (admin_request ''1'') \<noteq> 0"
    and a2: "getUserIDFromSession (admin_request ''8'') \<noteq> 0"
    and a3: "getUserIDFromSession (stranger_request ''8'') \<noteq> 0"
    by (simp_all add: admin_session stranger_session)
  note n = seeded_first_not_pending [of 0]
  note sp = seeded_select_pending [of 0]
  have f: "\<not> canApproveForWard (db (NewServer 0)) (getUserIDFromSession (stranger_request ''8''))
          (sub_ward_id (seeded_sub 0 8 4 50 Pending))"
    by (simp add: stranger_session seeded_pending_fields seeded_can_approve)
  have ca: "canApproveForWard (db (NewServer 0)) (getUserIDFromSession (admin_request ''8''))
          (sub_ward_id (seeded_sub 0 8 4 50 Pending))"
    by (simp add: admin_session seeded_pending_fields seeded_can_approve)
  have ok: "fst (handleApprovePoints 7 (admin_request ''8'') (NewServer 0))
       = JsonSuccess None ''Points approved successfully!''"
    using approve_db [OF refl a2 route_ids(1) sp ca, of 7]
    by (elim conjE)
  have 1: "handleApprovePoints 7 (admin_request ''1'') (NewServer 0)
       = (HttpError ''Submission not found or already processed'' StatusNotFound, NewServer 0)"
    using n
    by (rule approve_errors [OF a1 route_ids(2), where s = "NewServer 0" and now = 7,
          THEN conjunct1, rule_format])
  have 2: "handleApprovePoints 7 (stranger_request ''8'') (NewServer 0)
       = (HttpError ''Not authorized to approve for this ward'' StatusForbidden, NewServer 0)"
    using conjI [OF sp f]
    by (rule approve_errors [OF a3 route_ids(3), where s = "NewServer 0" and now = 7,
          THEN conjunct2, THEN conjunct1, rule_format])
  have 3: "handleApprovePoints 9 (admin_request ''8'')
         (snd (handleApprovePoints 7 (admin_request ''8'') (NewServer 0)))
       = (HttpError ''Submission not found or already processed'' StatusNotFound,
          snd (handleApprovePoints 7 (admin_request ''8'') (NewServer 0)))"
    using conjI [OF ok conjI [OF a2 route_ids(1)]]
    by (rule approve_errors [OF a2 route_ids(1), where s = "NewServer 0" and now = 7,
          THEN conjunct2, THEN conjunct2, rule_format])
  from a1 a2 a3 route_ids n sp f ok 1 2 3 show ?thesis
    by blast
qed

section \<open>Consistency of the cached ward totals\<close>




lemma totals_consistent_cong:
  "wards d' = wards d \<Longrightarrow> point_submissions d' = point_submissions d
   \<Longrightarrow> totals_consistent d' = totals_consistent d"
  by (simp add: totals_consistent_def)





























section \<open>Achievement evaluation\<close>

lemma hub_broadcast_history: "broadcast (hub_broadcast m h) = broadcast h @ [m]"
  by (simp add: hub_broadcast_def broadcast_loop_broadcast)

lemma broadcastAchievement_history:
  "broadcast (hub (broadcastAchievement w t s)) =
     broadcast (hub s) @
       [Message ''achievement''
          (AchievementData
             (case find (\<lambda>x. ward_id x = w) (wards (db s)) of None \<Rightarrow> [] | Some x \<Rightarrow> ward_name x) t
             ((case find (\<lambda>x. ward_id x = w) (wards (db s)) of None \<Rightarrow> [] | Some x \<Rightarrow> ward_name x)
                @ '' earned: '' @ t))]"
  by (simp add: broadcastAchievement_def broadcastUpdate_def Let_def hub_broadcast_history)

text \<open>
  Claim C4, right after the first start. Ward 4 has 847 verified points and the seeded
  achievement \<open>first_500\<close>. The first evaluation inserts the one missing row,
  \<open>first_100\<close>, and broadcasts two \<^verbatim>\<open>achievement\<close> events, one of them for the
  achievement that was already there. A second evaluation right after it adds no row to
  \<^verbatim>\<open>achievements\<close>, yet broadcasts both events again: \<^verbatim>\<open>INSERT OR IGNORE\<close> returns no
  error for a row that is already there, and the broadcast is guarded by \<^verbatim>\<open>err == nil\<close>
  alone.
\<close>

theorem evaluate_twice_rebroadcasts:
  "achievements (db (checkAndAwardAchievements 4 (NewServer 0))) =
     seeded_achievements @
       [\<lparr>ach_id = 9, ach_ward_id = 4, ach_type = ''first_100'', ach_title = ''First 100 Points!'',
         ach_icon = [CHR 0xF0, CHR 0x9F, CHR 0x92, CHR 0xAF]\<rparr>]
   \<and> broadcast (hub (checkAndAwardAchievements 4 (NewServer 0))) =
       [Message ''achievement''
          (AchievementData ''Moroni 1st Ward'' ''First 100 Points!''
             ''Moroni 1st Ward earned: First 100 Points!''),
        Message ''achievement''
          (AchievementData ''Moroni 1st Ward'' ''First to 500!''
             ''Moroni 1st Ward earned: First to 500!'')]
   \<and> achievements (db (checkAndAwardAchievements 4 (checkAndAwardAchievements 4 (NewServer 0))))
       = achievements (db (checkAndAwardAchievements 4 (NewServer 0)))
   \<and> broadcast (hub (checkAndAwardAchievements 4 (checkAndAwardAchievements 4 (NewServer 0))))
       = broadcast (hub (checkAndAwardAchievements 4 (NewServer 0))) @
         [Message ''achievement''
            (AchievementData ''Moroni 1st Ward'' ''First 100 Points!''
               ''Moroni 1st Ward earned: First 100 Points!''),
          Message ''achievement''
            (AchievementData ''Moroni 1st Ward'' ''First to 500!''
               ''Moroni 1st Ward earned: First to 500!'')]"
  by (simp add: checkAndAwardAchievements_def db_NewServer hub_NewServer seeded_wards_def
      seeded_achievements_def achievement_table_def insert_or_ignore_achievement_def
      ward_exists_def next_id_def broadcastAchievement_history)

end
